theory Spec2Isabelle
  imports Complex_Main
begin

section \<open>Data model of \<^verbatim>\<open>simple_gurobi.py\<close>\<close>

text \<open>
  The module works on numpy arrays of double-precision numbers and on a Gurobi model.
  A double is modelled by the \<^typ>\<open>real\<close> number it denotes, and two doubles are compared
  as those reals, which is what the hardware does. The arithmetic on doubles rounds, so
  it is not the arithmetic of \<^typ>\<open>real\<close>: every arithmetic operation the module
  performs is a field of the record \<open>float_ops\<close> below, and the functions of the module
  take such a record as their first argument.

  A two-dimensional array (\<open>Q\<close>, \<open>A\<close>) is its shape and its element lookup. A
  one-dimensional array or a column (\<open>c\<close>, \<open>b\<close>, the primal, slack and dual vectors)
  is the list of its elements: for such an array \<^verbatim>\<open>shape[0]\<close>, \<^verbatim>\<open>numpy.size\<close> and
  the length of \<^verbatim>\<open>flatten()\<close> are all the length of that list.
  Every optional argument (\<^verbatim>\<open>None\<close> in Python) is an \<^typ>\<open>'a option\<close>.
\<close>

datatype py_error = AttributeError | IndexError | TypeError | ValueError | GurobiError

record matrix =
  nrows :: nat
  ncols :: nat
  entry :: "nat \<Rightarrow> nat \<Rightarrow> real"

type_synonym vector = "real list"

text \<open>
  The floating-point operations of the module, as the platform computes them:
  \<^item> \<open>fl_matmul M v i\<close> is entry \<open>i\<close> of \<^verbatim>\<open>M @ v\<close> (line 162; the order in which
    numpy accumulates a row is its own matter);
  \<^item> \<open>fl_sub x y\<close> is \<^verbatim>\<open>x - y\<close> (lines 42 and 162);
  \<^item> \<open>np_square x\<close> is \<^verbatim>\<open>x ** 2\<close> on an element of an array (line 162) and
    \<open>py_square x\<close> is \<^verbatim>\<open>x ** 2\<close> on the scalar \<open>obj\<close> (line 42);
  \<^item> \<open>fl_isclose x y\<close> is the test \<open>\<bar>x - y\<bar> \<le> atol + rtol * \<bar>y\<bar>\<close> that
    \<^verbatim>\<open>numpy.allclose\<close> makes on a pair of elements (lines 40 to 42);
  \<^item> \<open>ten_pow_m9\<close>, \<open>ten_pow_m10\<close> and \<open>ten_pow_m12\<close> are the doubles that
    \<^verbatim>\<open>10 ** (-9)\<close>, \<^verbatim>\<open>10 ** -10\<close> and \<^verbatim>\<open>10 ** -12\<close> evaluate to (lines 108, 109, 42
    and 162).
  Nothing is assumed about them: what is proved holds for the operations of any
  platform, IEEE 754 binary64 arithmetic among them.
\<close>

record float_ops =
  fl_matmul :: "matrix \<Rightarrow> vector \<Rightarrow> nat \<Rightarrow> real"
  fl_sub :: "real \<Rightarrow> real \<Rightarrow> real"
  np_square :: "real \<Rightarrow> real"
  py_square :: "real \<Rightarrow> real"
  fl_isclose :: "real \<Rightarrow> real \<Rightarrow> bool"
  ten_pow_m9 :: real
  ten_pow_m10 :: real
  ten_pow_m12 :: real

text \<open>A matrix given by its rows, for writing concrete arrays down.\<close>

definition matrix_of_rows :: "nat \<Rightarrow> real list list \<Rightarrow> matrix" where
  "matrix_of_rows n rs = \<lparr>nrows = length rs, ncols = n, entry = (\<lambda>i j. rs ! i ! j)\<rparr>"

text \<open>\<^verbatim>\<open>numpy.size\<close> of a two-dimensional array.\<close>

definition matrix_size :: "matrix \<Rightarrow> nat" where
  "matrix_size M = nrows M * ncols M"

text \<open>
  The solution record, \<^verbatim>\<open>SolverOutput\<close>. The field \<open>active_set\<close> holds the index array
  that \<^verbatim>\<open>numpy.where\<close> returns (numpy wraps it in a one-element tuple).
\<close>

record SolverOutput =
  obj :: real
  sol :: vector
  slack :: "vector option"
  active_set :: "nat list option"
  dual :: "vector option"

section \<open>Dimension inference\<close>

text \<open>
  \<^verbatim>\<open>get_program_parameters\<close>, lines 46 to 62. The three \<^verbatim>\<open>if\<close> statements run in
  the order \<open>Q\<close>, \<open>A\<close>, \<open>c\<close>, each overwriting \<open>num_v\<close>. Inside the \<open>A\<close> branch the
  code reads \<^verbatim>\<open>b.shape[0]\<close> without testing \<open>b\<close>: on \<^verbatim>\<open>None\<close> that is an
  \<^verbatim>\<open>AttributeError\<close>.
\<close>

definition get_program_parameters ::
  "matrix option \<Rightarrow> vector option \<Rightarrow> matrix option \<Rightarrow> vector option \<Rightarrow> py_error + (nat \<times> nat)" where
  "get_program_parameters Q c A b =
    (let num_c = 0;
         num_v = 0;
         num_v = (case Q of None \<Rightarrow> num_v | Some Qm \<Rightarrow> nrows Qm)
     in case (case A of
                None \<Rightarrow> Inr (num_v, num_c)
              | Some Am \<Rightarrow>
                  (case b of
                     None \<Rightarrow> Inl AttributeError
                   | Some bv \<Rightarrow> Inr (ncols Am, length bv))) of
          Inl e \<Rightarrow> Inl e
        | Inr (num_v, num_c) \<Rightarrow>
            Inr (case c of None \<Rightarrow> num_v | Some cv \<Rightarrow> length cv, num_c))"

section \<open>The external solver\<close>

text \<open>
  Gurobi is not part of the repository. What \<^verbatim>\<open>solve_miqp\<close> tells it is collected in a
  record: the parameters set with \<^verbatim>\<open>setParam\<close> (in order), the variable types given to
  \<^verbatim>\<open>addMVar\<close> (every variable has bounds \<open>-\<infinity>\<close> and \<open>+\<infinity>\<close>), the arguments of
  \<^verbatim>\<open>addMConstrs\<close> when it is called, and the two terms of the objective, which is
  always minimised. The solver itself is a parameter of the model: any function from
  that record to either an exception or the attributes read back after
  \<^verbatim>\<open>optimize\<close> (\<^verbatim>\<open>status\<close>, \<^verbatim>\<open>ObjVal\<close>, \<^verbatim>\<open>x.X\<close>, \<^verbatim>\<open>Pi\<close>, \<^verbatim>\<open>Slack\<close>).
\<close>

datatype vtype = CONTINUOUS | BINARY

datatype sense = EQUAL | LESS_EQUAL

datatype grb_status =
    LOADED | OPTIMAL | INFEASIBLE | INF_OR_UNBD | UNBOUNDED | CUTOFF | ITERATION_LIMIT
  | NODE_LIMIT | TIME_LIMIT | SOLUTION_LIMIT | INTERRUPTED | NUMERIC | SUBOPTIMAL
  | INPROGRESS | USER_OBJ_LIMIT

record grb_model =
  params :: "(string \<times> real) list"
  var_types :: "vtype list"
  constrs :: "(matrix option \<times> sense option list \<times> vector option) option"
  objective_Q :: "matrix option"
  objective_c :: "vector option"

record grb_result =
  status :: grb_status
  ObjVal :: real
  X :: vector
  Pi :: vector
  Slack :: vector

type_synonym solver = "grb_model \<Rightarrow> py_error + grb_result"

text \<open>
  The calls made on the Gurobi model, in order. A function of this module that returns
  normally returns this log beside its value, so that "the solver was not invoked" is a
  statement about the log.
\<close>

datatype grb_call =
    Call_Model
  | Call_setParam string real
  | Call_addMVar
  | Call_addMConstrs
  | Call_setObjective
  | Call_optimize
  | Call_update
  | Call_getAttr string

section \<open>numpy operations used by the module\<close>

text \<open>
  Indexing an array of length \<open>n\<close> with a Python integer: negative indices count from the
  end, anything outside \<open>-n \<le> i < n\<close> raises \<^verbatim>\<open>IndexError\<close>.
\<close>

definition np_index :: "nat \<Rightarrow> int \<Rightarrow> py_error + nat" where
  "np_index n i =
    (if 0 \<le> i \<and> i < int n then Inr (nat i)
     else if - int n \<le> i \<and> i < 0 then Inr (nat (i + int n))
     else Inl IndexError)"

text \<open>\<^verbatim>\<open>arr[idx] = v\<close> for a list \<open>idx\<close> of integers.\<close>

fun np_put :: "'a list \<Rightarrow> int list \<Rightarrow> 'a \<Rightarrow> py_error + 'a list" where
  "np_put xs [] v = Inr xs"
| "np_put xs (i # idx) v =
    (case np_index (length xs) i of
       Inl e \<Rightarrow> Inl e
     | Inr k \<Rightarrow> np_put (xs[k := v]) idx v)"

text \<open>
  \<^verbatim>\<open>M @ v\<close> for a two-dimensional \<open>M\<close> and a one-dimensional \<open>v\<close>: a
  \<^verbatim>\<open>ValueError\<close> unless \<open>v\<close> has as many entries as \<open>M\<close> has columns, else one
  entry per row of \<open>M\<close>.
\<close>

definition matvec :: "float_ops \<Rightarrow> matrix \<Rightarrow> vector \<Rightarrow> py_error + vector" where
  "matvec fp M v =
    (if ncols M \<noteq> length v then Inl ValueError
     else Inr (map (fl_matmul fp M v) [0..<nrows M]))"

text \<open>
  \<^verbatim>\<open>u - v\<close> for one-dimensional arrays, with numpy's broadcasting: equal lengths, or
  one of the two of length one; otherwise a \<^verbatim>\<open>ValueError\<close>.
\<close>

definition np_sub :: "float_ops \<Rightarrow> vector \<Rightarrow> vector \<Rightarrow> py_error + vector" where
  "np_sub fp u v =
    (if length u = length v then Inr (map2 (fl_sub fp) u v)
     else if length v = 1 then Inr (map (\<lambda>x. fl_sub fp x (v ! 0)) u)
     else if length u = 1 then Inr (map (\<lambda>y. fl_sub fp (u ! 0) y) v)
     else Inl ValueError)"

text \<open>\<^verbatim>\<open>numpy.where(mask)\<close>: the indices at which the flag is true, ascending.\<close>

definition np_where :: "bool list \<Rightarrow> nat list" where
  "np_where flags = filter (\<lambda>i. flags ! i) [0..<length flags]"

section \<open>The canonical formulator \<^verbatim>\<open>solve_miqp\<close>\<close>

text \<open>Lines 95 to 110: the parameters set on the fresh model.\<close>

definition model_params :: "float_ops \<Rightarrow> bool \<Rightarrow> int list \<Rightarrow> (string \<times> real) list" where
  "model_params fp verbose bin_vars =
    (if \<not> verbose then [(''OutputFlag'', 0)] else []) @
    (if length bin_vars = 0 then [(''Method'', 0)] else []) @
    [(''Quad'', 1), (''FeasibilityTol'', ten_pow_m9 fp), (''OptimalityTol'', ten_pow_m9 fp),
     (''Presolve'', 0)]"

definition setup_calls :: "float_ops \<Rightarrow> bool \<Rightarrow> int list \<Rightarrow> grb_call list" where
  "setup_calls fp verbose bin_vars =
    Call_Model # map (\<lambda>(k, v). Call_setParam k v) (model_params fp verbose bin_vars)"

text \<open>Line 118: the type of each variable, by membership of its index in \<open>bin_vars\<close>.\<close>

definition var_types_of :: "int list \<Rightarrow> nat \<Rightarrow> vtype list" where
  "var_types_of bin_vars num_vars =
    map (\<lambda>i. if int i \<in> set bin_vars then BINARY else CONTINUOUS) [0..<num_vars]"

text \<open>
  Lines 122 to 126: the sense array. \<^verbatim>\<open>numpy.chararray\<close> allocates without
  initialising (\<open>None\<close> here); the rows listed in \<open>equality_constraints\<close> are set to
  \<open>EQUAL\<close>, then every row whose index is not in that list is set to \<open>LESS_EQUAL\<close>.
\<close>

definition constraint_sense :: "int list \<Rightarrow> nat \<Rightarrow> py_error + sense option list" where
  "constraint_sense equality_constraints num_constraints =
    (case np_put (replicate num_constraints None) equality_constraints (Some EQUAL) of
       Inl e \<Rightarrow> Inl e
     | Inr sense \<Rightarrow>
         np_put sense
           (map int (filter (\<lambda>i. int i \<notin> set equality_constraints) [0..<num_constraints]))
           (Some LESS_EQUAL))"

text \<open>Lines 93 to 138: the model as it stands when \<^verbatim>\<open>optimize\<close> is called.\<close>

definition miqp_model ::
  "float_ops \<Rightarrow> matrix option \<Rightarrow> vector option \<Rightarrow> matrix option \<Rightarrow> vector option
     \<Rightarrow> int list \<Rightarrow> int list \<Rightarrow> bool \<Rightarrow> nat \<Rightarrow> nat \<Rightarrow> py_error + grb_model" where
  "miqp_model fp Q c A b equality_constraints bin_vars verbose num_vars num_constraints =
    (case (if num_constraints \<noteq> 0
           then (case constraint_sense equality_constraints num_constraints of
                   Inl e \<Rightarrow> Inl e
                 | Inr sense \<Rightarrow> Inr (Some (A, sense, b)))
           else Inr None) of
       Inl e \<Rightarrow> Inl e
     | Inr cs \<Rightarrow>
         Inr \<lparr>params = model_params fp verbose bin_vars,
              var_types = var_types_of bin_vars num_vars,
              constrs = cs,
              objective_Q = Q,
              objective_c = c\<rparr>)"

definition build_calls :: "nat \<Rightarrow> grb_call list" where
  "build_calls num_constraints =
    [Call_addMVar] @ (if num_constraints \<noteq> 0 then [Call_addMConstrs] else []) @
    [Call_setObjective, Call_optimize, Call_update]"

text \<open>
  Lines 149 to 164: the solution record. \<open>obj\<close> and \<open>sol\<close> are always filled; the other
  three fields only for a constrained problem, and \<open>dual\<close> only if \<open>get_duals\<close> is set
  and \<open>bin_vars\<close> is empty. The residual is \<^verbatim>\<open>A @ sol.sol.flatten() - b.flatten()\<close>,
  evaluated left to right; each of its elements is squared and compared with the
  double \<^verbatim>\<open>10 ** -12\<close>, all in the platform's floating-point operations. Inside \<^verbatim>\<open>solve_miqp\<close> a non-zero constraint count means
  that \<open>A\<close> and \<open>b\<close> are both present, so the two \<open>None\<close> branches below are never
  taken there; they are the exceptions Python raises on \<^verbatim>\<open>None @ x\<close> and on
  \<^verbatim>\<open>None.flatten()\<close>.
\<close>

definition extract_solution ::
  "float_ops \<Rightarrow> grb_result \<Rightarrow> nat \<Rightarrow> matrix option \<Rightarrow> vector option \<Rightarrow> int list \<Rightarrow> bool
     \<Rightarrow> py_error + SolverOutput" where
  "extract_solution fp r num_constraints A b bin_vars get_duals =
    (let out = \<lparr>obj = ObjVal r, sol = X r, slack = None, active_set = None, dual = None\<rparr>
     in if num_constraints \<noteq> 0 then
          (let out = (if get_duals
                      then (if length bin_vars = 0 then out\<lparr>dual := Some (Pi r)\<rparr> else out)
                      else out);
               out = out\<lparr>slack := Some (Slack r)\<rparr>
           in case A of
                None \<Rightarrow> Inl ValueError
              | Some Am \<Rightarrow>
                  (case matvec fp Am (sol out) of
                     Inl e \<Rightarrow> Inl e
                   | Inr Ax \<Rightarrow>
                       (case b of
                          None \<Rightarrow> Inl AttributeError
                        | Some bv \<Rightarrow>
                            (case np_sub fp Ax bv of
                               Inl e \<Rightarrow> Inl e
                             | Inr d \<Rightarrow>
                                 Inr (out\<lparr>active_set :=
                                   Some (np_where
                                     (map (\<lambda>x. np_square fp x < ten_pow_m12 fp) d))\<rparr>)))))
        else Inr out)"

definition extract_calls :: "nat \<Rightarrow> int list \<Rightarrow> bool \<Rightarrow> grb_call list" where
  "extract_calls num_constraints bin_vars get_duals =
    [Call_getAttr ''ObjVal''] @
    (if num_constraints \<noteq> 0
     then (if get_duals \<and> length bin_vars = 0 then [Call_getAttr ''Pi''] else []) @
          [Call_getAttr ''Slack'']
     else [])"

text \<open>
  \<^verbatim>\<open>solve_miqp\<close>, lines 64 to 164. The model is created and configured first, the
  dimensions are inferred (which may raise), and only then is the ill-posed case
  \<open>A\<close> and \<open>Q\<close> both absent returned as \<open>None\<close>. A normal return carries the log of
  solver calls and the optional record; an exception is \<open>Inl\<close>.
\<close>

definition solve_miqp ::
  "float_ops \<Rightarrow> solver \<Rightarrow> matrix option \<Rightarrow> vector option \<Rightarrow> matrix option \<Rightarrow> vector option
     \<Rightarrow> int list option \<Rightarrow> int list option \<Rightarrow> bool \<Rightarrow> bool
     \<Rightarrow> py_error + (grb_call list \<times> SolverOutput option)" where
  "solve_miqp fp solver Q c A b equality_constraints bin_vars verbose get_duals =
    (let equality_constraints = (case equality_constraints of None \<Rightarrow> [] | Some l \<Rightarrow> l);
         bin_vars = (case bin_vars of None \<Rightarrow> [] | Some l \<Rightarrow> l);
         calls = setup_calls fp verbose bin_vars
     in case get_program_parameters Q c A b of
          Inl e \<Rightarrow> Inl e
        | Inr (num_vars, num_constraints) \<Rightarrow>
            if A = None \<and> Q = None then Inr (calls, None)
            else
              (case miqp_model fp Q c A b equality_constraints bin_vars verbose
                      num_vars num_constraints of
                 Inl e \<Rightarrow> Inl e
               | Inr m \<Rightarrow>
                   (case solver m of
                      Inl e \<Rightarrow> Inl e
                    | Inr r \<Rightarrow>
                        (let calls = calls @ build_calls num_constraints
                         in if status r \<noteq> OPTIMAL \<and> status r \<noteq> SUBOPTIMAL
                            then Inr (calls, None)
                            else
                              (case extract_solution fp r num_constraints A b bin_vars
                                      get_duals of
                                 Inl e \<Rightarrow> Inl e
                               | Inr out \<Rightarrow>
                                   Inr (calls @ extract_calls num_constraints bin_vars
                                          get_duals,
                                        Some out))))))"

section \<open>The specialised entry points\<close>

text \<open>\<^verbatim>\<open>solve_qp\<close>, line 192: \<open>bin_vars\<close> is left at its default \<^verbatim>\<open>None\<close>.\<close>

definition solve_qp ::
  "float_ops \<Rightarrow> solver \<Rightarrow> matrix option \<Rightarrow> vector option \<Rightarrow> matrix option \<Rightarrow> vector option
     \<Rightarrow> int list option \<Rightarrow> bool \<Rightarrow> bool
     \<Rightarrow> py_error + (grb_call list \<times> SolverOutput option)" where
  "solve_qp fp solver Q c A b equality_constraints verbose get_duals =
    solve_miqp fp solver Q c A b equality_constraints None verbose get_duals"

text \<open>
  \<^verbatim>\<open>solve_lp\<close>, lines 221 to 228, and \<^verbatim>\<open>solve_milp\<close>, lines 257 to 264. Both return
  \<open>None\<close> before any model exists when \<open>A\<close> or \<open>b\<close> is absent or has no element.
\<close>

definition solve_lp ::
  "float_ops \<Rightarrow> solver \<Rightarrow> vector option \<Rightarrow> matrix option \<Rightarrow> vector option \<Rightarrow> int list option
     \<Rightarrow> bool \<Rightarrow> bool \<Rightarrow> py_error + (grb_call list \<times> SolverOutput option)" where
  "solve_lp fp solver c A b equality_constraints verbose get_duals =
    (case A of
       None \<Rightarrow> Inr ([], None)
     | Some Am \<Rightarrow>
         (case b of
            None \<Rightarrow> Inr ([], None)
          | Some bv \<Rightarrow>
              if matrix_size Am = 0 \<or> length bv = 0 then Inr ([], None)
              else solve_miqp fp solver None c A b equality_constraints None verbose
                     get_duals))"

definition solve_milp ::
  "float_ops \<Rightarrow> solver \<Rightarrow> vector option \<Rightarrow> matrix option \<Rightarrow> vector option \<Rightarrow> int list option
     \<Rightarrow> int list option \<Rightarrow> bool \<Rightarrow> bool
     \<Rightarrow> py_error + (grb_call list \<times> SolverOutput option)" where
  "solve_milp fp solver c A b equality_constraints bin_vars verbose get_duals =
    (case A of
       None \<Rightarrow> Inr ([], None)
     | Some Am \<Rightarrow>
         (case b of
            None \<Rightarrow> Inr ([], None)
          | Some bv \<Rightarrow>
              if matrix_size Am = 0 \<or> length bv = 0 then Inr ([], None)
              else solve_miqp fp solver None c A b equality_constraints bin_vars verbose
                     get_duals))"

section \<open>Approximate equality of solution records\<close>

text \<open>
  \<^verbatim>\<open>numpy.allclose(a, b)\<close> with its default tolerances: every pair of elements, after
  broadcasting, passes the closeness test \<open>fl_isclose\<close>. numpy is a library outside the
  repository; its behaviour on \<^verbatim>\<open>None\<close> is the documented one: \<^verbatim>\<open>None\<close> becomes an
  array of Python objects, on which the arithmetic of the test raises
  \<^verbatim>\<open>TypeError\<close>.
\<close>

definition np_allclose :: "float_ops \<Rightarrow> vector option \<Rightarrow> vector option \<Rightarrow> py_error + bool" where
  "np_allclose fp a b =
    (case a of
       None \<Rightarrow> Inl TypeError
     | Some u \<Rightarrow>
         (case b of
            None \<Rightarrow> Inl TypeError
          | Some v \<Rightarrow>
              if length u = length v then Inr (list_all2 (fl_isclose fp) u v)
              else if length v = 1 then Inr (list_all (\<lambda>x. fl_isclose fp x (v ! 0)) u)
              else if length u = 1 then Inr (list_all (\<lambda>y. fl_isclose fp (u ! 0) y) v)
              else Inl ValueError))"

text \<open>Python's \<^verbatim>\<open>and\<close>: the right operand is evaluated only if the left one is true.\<close>

definition py_and :: "py_error + bool \<Rightarrow> py_error + bool \<Rightarrow> py_error + bool" where
  "py_and p q = (case p of Inl e \<Rightarrow> Inl e | Inr False \<Rightarrow> Inr False | Inr True \<Rightarrow> q)"

text \<open>
  \<^verbatim>\<open>SolverOutput.__eq__\<close>, lines 36 to 42, for two records (the
  \<^verbatim>\<open>isinstance\<close> test is the type of the second argument). The four
  \<^verbatim>\<open>allclose\<close> tests are made on the fields as they are, with no test for
  \<^verbatim>\<open>None\<close>.
\<close>

definition SolverOutput_eq ::
  "float_ops \<Rightarrow> SolverOutput \<Rightarrow> SolverOutput \<Rightarrow> py_error + bool" where
  "SolverOutput_eq fp self other =
    py_and (np_allclose fp (slack self) (slack other))
     (py_and (np_allclose fp (map_option (map real) (active_set self))
                (map_option (map real) (active_set other)))
       (py_and (np_allclose fp (dual self) (dual other))
         (py_and (np_allclose fp (Some (sol self)) (Some (sol other)))
            (Inr (py_square fp (fl_sub fp (obj self) (obj other)) < ten_pow_m10 fp)))))"

section \<open>Example data\<close>

text \<open>
  IEEE 754 binary64 arithmetic in its normal range, for running the module on concrete
  numbers: a real \<open>x \<noteq> 0\<close> with \<open>2\<^sup>e \<le> \<bar>x\<bar> < 2\<^sup>e\<^sup>+\<^sup>1\<close> is rounded to the nearest multiple of
  \<open>2\<^sup>e\<^sup>-\<^sup>5\<^sup>2\<close>, ties to the even multiple. Overflow and subnormal numbers do not occur in
  the examples and are not modelled.
\<close>

definition round_half_even :: "real \<Rightarrow> int" where
  "round_half_even y =
    (let f = \<lfloor>y\<rfloor>
     in if y - of_int f < 1 / 2 then f
        else if 1 / 2 < y - of_int f then f + 1
        else if even f then f else f + 1)"

definition round64 :: "real \<Rightarrow> real" where
  "round64 x =
    (if x = 0 then 0
     else (let u = 2 powr (of_int \<lfloor>log 2 \<bar>x\<bar>\<rfloor> - 52)
           in of_int (round_half_even (x / u)) * u))"

text \<open>
  The binary64 numbers nearest to \<open>10\<^sup>-\<^sup>5\<close>, \<open>10\<^sup>-\<^sup>6\<close> and \<open>10\<^sup>-\<^sup>8\<close>: what the literals
  \<^verbatim>\<open>1e-5\<close> (the default \<open>rtol\<close> of \<^verbatim>\<open>allclose\<close>), \<^verbatim>\<open>1e-6\<close> and \<^verbatim>\<open>1e-8\<close> (its default
  \<open>atol\<close>) denote.
\<close>

definition double_1e_minus5 :: real where
  "double_1e_minus5 = 5902958103587057 / 2 ^ 69"

definition double_1e_minus6 :: real where
  "double_1e_minus6 = 4722366482869645 / 2 ^ 72"

definition double_1e_minus8 :: real where
  "double_1e_minus8 = 3022314549036573 / 2 ^ 78"

text \<open>
  The operations of the module in that arithmetic: each operation is the exact one
  followed by one rounding, a row of \<^verbatim>\<open>M @ v\<close> is accumulated from left to right, and
  the three constants are the binary64 numbers nearest to \<open>10\<^sup>-\<^sup>9\<close>, \<open>10\<^sup>-\<^sup>1\<^sup>0\<close> and
  \<open>10\<^sup>-\<^sup>1\<^sup>2\<close>. (In the examples below the rows have one or two entries and every sum
  is exact, so the order of accumulation does not matter.)
\<close>

definition binary64_ops :: float_ops where
  "binary64_ops =
    \<lparr>fl_matmul = (\<lambda>M v i.
       foldl (\<lambda>acc j. round64 (acc + round64 (entry M i j * v ! j))) 0 [0..<ncols M]),
     fl_sub = (\<lambda>x y. round64 (x - y)),
     np_square = (\<lambda>x. round64 (x * x)),
     py_square = (\<lambda>x. round64 (x * x)),
     fl_isclose = (\<lambda>x y. \<bar>round64 (x - y)\<bar>
        \<le> round64 (double_1e_minus8 + round64 (double_1e_minus5 * \<bar>y\<bar>))),
     ten_pow_m9 = 4835703278458517 / 2 ^ 82,
     ten_pow_m10 = 7737125245533627 / 2 ^ 86,
     ten_pow_m12 = 4951760157141521 / 2 ^ 92\<rparr>"

text \<open>A stand-in for the solver that answers every model with the same attributes.\<close>

definition const_solver :: "grb_result \<Rightarrow> solver" where
  "const_solver r m = Inr r"

text \<open>
  The linear program \<open>min x\<^sub>0 + x\<^sub>1\<close> subject to \<open>-x \<le> 0\<close>, whose optimum is the
  origin with both constraints active, and the answer of a solver to it.
\<close>

definition lp_A :: matrix where
  "lp_A = matrix_of_rows 2 [[-1, 0], [0, -1]]"

definition lp_answer :: grb_result where
  "lp_answer = \<lparr>status = OPTIMAL, ObjVal = 0, X = [0, 0], Pi = [-1, -1], Slack = [0, 0]\<rparr>"

text \<open>
  A quadratic program \<open>min \<onehalf> \<bar>x\<bar>\<^sup>2 - x\<^sub>0 / 2 - x\<^sub>1 / 4\<close> inside the thin band
  \<open>- near_hi \<le> x\<^sub>0 - 2 x\<^sub>1 \<le> near_lo\<close>, where \<open>near_lo\<close> and \<open>near_hi\<close> are the two
  neighbours of \<open>10\<^sup>-\<^sup>6\<close> among the multiples of \<open>1 / 2 ^ 45\<close>. Its optimum is
  \<open>[1/2, 1/4]\<close>, in the middle of the band, with residuals \<open>- near_lo\<close> and
  \<open>- near_hi\<close>. All entries, products, sums, residuals and squares of this example
  are binary64 numbers, so no operation rounds. The square of \<open>near_lo\<close> is below the
  double \<^verbatim>\<open>10 ** -12\<close>, the square of \<open>near_hi\<close> above it.
\<close>

definition near_lo :: real where
  "near_lo = 35184372 / 2 ^ 45"

definition near_hi :: real where
  "near_hi = 35184373 / 2 ^ 45"

definition band_Q :: matrix where
  "band_Q = matrix_of_rows 2 [[1, 0], [0, 1]]"

definition band_A :: matrix where
  "band_A = matrix_of_rows 2 [[1, -2], [-1, 2]]"

definition band_b :: vector where
  "band_b = [near_lo, near_hi]"

definition band_answer :: grb_result where
  "band_answer =
    \<lparr>status = OPTIMAL, ObjVal = - 5 / 32, X = [1 / 2, 1 / 4], Pi = [0, 0],
     Slack = [near_lo, near_hi]\<rparr>"

text \<open>
  The linear program \<open>min x\<close> subject to \<open>-x \<le> 0\<close> and \<open>-x \<le> 1e-6\<close>, with optimum
  \<open>x = 0\<close>. The second residual is \<open>-1e-6\<close>, that is minus the double nearest to
  \<open>10\<^sup>-\<^sup>6\<close>; its exact square is below \<open>10\<^sup>-\<^sup>1\<^sup>2\<close>, and the square the hardware
  computes is rounded up to the double \<^verbatim>\<open>10 ** -12\<close> itself.
\<close>

definition edge_A :: matrix where
  "edge_A = matrix_of_rows 1 [[-1], [-1]]"

definition edge_b :: vector where
  "edge_b = [0, double_1e_minus6]"

definition edge_answer :: grb_result where
  "edge_answer =
    \<lparr>status = OPTIMAL, ObjVal = 0, X = [0], Pi = [-1, 0], Slack = [0, double_1e_minus6]\<rparr>"

text \<open>An unconstrained quadratic program \<open>min \<onehalf> x\<^sup>2\<close> and a solver's answer to it.\<close>

definition qp_Q :: matrix where
  "qp_Q = matrix_of_rows 1 [[1]]"

definition qp_answer :: grb_result where
  "qp_answer = \<lparr>status = OPTIMAL, ObjVal = 0, X = [0], Pi = [], Slack = []\<rparr>"

definition infeasible_answer :: grb_result where
  "infeasible_answer = \<lparr>status = INFEASIBLE, ObjVal = 0, X = [], Pi = [], Slack = []\<rparr>"

section \<open>The precondition of the linear entry points\<close>

text \<open>
  The specification's wording of the precondition shared by the LP and MILP entry
  points: \<open>A\<close> and \<open>b\<close> are both present and neither has size zero. The two entry
  points themselves are defined above from their source; the theorem for C5 compares
  them with this predicate.
\<close>

definition lp_precondition :: "matrix option \<Rightarrow> vector option \<Rightarrow> bool" where
  "lp_precondition A b =
    (case A of
       None \<Rightarrow> False
     | Some Am \<Rightarrow>
         (case b of
            None \<Rightarrow> False
          | Some bv \<Rightarrow> matrix_size Am \<noteq> 0 \<and> length bv \<noteq> 0))"

section \<open>Properties\<close>

subsection \<open>Rounding in the examples\<close>

lemma round64_zero: "round64 0 = 0"
  by (simp add: round64_def)

lemma round_half_even_of_int: "round_half_even (of_int k) = k"
  by (simp add: round_half_even_def)

text \<open>Rounding a number whose binade is known.\<close>

lemma round64_in_binade:
  assumes "2 powr of_int e \<le> \<bar>x\<bar>" and "\<bar>x\<bar> < 2 powr (of_int e + 1)"
  shows "round64 x =
           of_int (round_half_even (x / 2 powr (of_int e - 52))) * 2 powr (of_int e - 52)"
proof -
  have "0 < (2::real) powr of_int e"
    by simp
  with assms(1) have pos: "0 < \<bar>x\<bar>"
    by linarith
  then have nz: "x \<noteq> 0" by simp
  from assms pos have "of_int e \<le> log 2 \<bar>x\<bar>" and "log 2 \<bar>x\<bar> < of_int e + 1"
    by (simp_all add: le_log_iff log_less_iff)
  then have "\<lfloor>log 2 \<bar>x\<bar>\<rfloor> = e"
    by (simp add: floor_eq_iff)
  with nz show ?thesis
    by (simp add: round64_def Let_def)
qed

text \<open>A binary64 number is its own rounding.\<close>

lemma round64_representable:
  assumes "2 powr of_int e \<le> \<bar>x\<bar>" and "\<bar>x\<bar> < 2 powr (of_int e + 1)"
      and "x = of_int k * 2 powr (of_int e - 52)"
  shows "round64 x = x"
proof -
  have "x / 2 powr (of_int e - 52) = of_int k"
    using assms(3) by simp
  with round64_in_binade [OF assms(1,2)] assms(3) show ?thesis
    by (simp add: round_half_even_of_int)
qed

lemma round64_half: "round64 (1 / 2) = 1 / 2"
  by (rule round64_representable [of "-1" _ 4503599627370496]) (simp_all add: powr_minus)

lemma round64_minus_half: "round64 (- (1 / 2)) = - (1 / 2)"
  by (rule round64_representable [of "-1" _ "-4503599627370496"]) (simp_all add: powr_minus)

lemma round64_near_lo: "round64 (- near_lo) = - near_lo"
  by (rule round64_representable [of "-20" _ "-4722366470946816"])
    (simp_all add: powr_minus near_lo_def)

lemma round64_near_hi: "round64 (- near_hi) = - near_hi"
  by (rule round64_representable [of "-20" _ "-4722366605164544"])
    (simp_all add: powr_minus near_hi_def)

lemma round64_near_lo_square: "round64 (near_lo * near_lo) = near_lo * near_lo"
  by (rule round64_representable [of "-40" _ 4951760132137536])
    (simp_all add: powr_minus near_lo_def)

lemma round64_near_hi_square: "round64 (near_hi * near_hi) = near_hi * near_hi"
  by (rule round64_representable [of "-40" _ 4951760413612516])
    (simp_all add: powr_minus near_hi_def)

lemma round64_1e_minus6: "round64 (- double_1e_minus6) = - double_1e_minus6"
  by (rule round64_representable [of "-20" _ "-4722366482869645"])
    (simp_all add: powr_minus double_1e_minus6_def)

text \<open>
  The exact square of the double \<^verbatim>\<open>1e-6\<close> lies between two binary64 numbers; the
  nearer one is the double \<^verbatim>\<open>10 ** -12\<close>, above it.
\<close>

lemma round64_1e_minus6_square:
  "round64 (double_1e_minus6 * double_1e_minus6) = 4951760157141521 / 2 ^ 92"
  using round64_in_binade [of "-40" "double_1e_minus6 * double_1e_minus6"]
  by (simp add: double_1e_minus6_def powr_minus round_half_even_def Let_def divide_simps)

lemma round64_1e_minus5: "round64 double_1e_minus5 = double_1e_minus5"
  by (rule round64_representable [of "-17" _ 5902958103587057])
    (simp_all add: powr_minus double_1e_minus5_def)

lemma round64_1e_minus8: "round64 double_1e_minus8 = double_1e_minus8"
  by (rule round64_representable [of "-27" _ 6044629098073146])
    (simp_all add: powr_minus double_1e_minus8_def)

lemma round64_atol_plus_rtol:
  "round64 (double_1e_minus8 + double_1e_minus5) = 1477215265422661 / 2 ^ 67"
  using round64_in_binade [of "-17" "double_1e_minus8 + double_1e_minus5"]
  by (simp add: double_1e_minus8_def double_1e_minus5_def powr_minus round_half_even_def
      Let_def divide_simps)

subsection \<open>Auxiliary facts\<close>

lemmas run_defs =
  solve_miqp_def get_program_parameters_def miqp_model_def constraint_sense_def np_index_def
  extract_solution_def matvec_def np_sub_def np_where_def Let_def binary64_ops_def
  const_solver_def lp_answer_def lp_A_def matrix_of_rows_def upt_rec [of 0] numeral_2_eq_2
  round64_zero

lemma set_np_where: "set (np_where flags) = {i. i < length flags \<and> flags ! i}"
  by (auto simp: np_where_def)

lemma sorted_np_where: "sorted (np_where flags) \<and> distinct (np_where flags)"
  by (simp add: np_where_def sorted_wrt_filter)

lemma matvec_Inr:
  assumes "matvec fp M v = Inr w"
  shows "length v = ncols M \<and> length w = nrows M
       \<and> (\<forall>i<nrows M. w ! i = fl_matmul fp M v i)"
  using assms
  by (auto simp: matvec_def split: if_splits)

lemma np_sub_same_length:
  assumes "np_sub fp u v = Inr d" and "length u = length v"
  shows "length d = length v \<and> (\<forall>i<length v. d ! i = fl_sub fp (u ! i) (v ! i))"
  using assms
  by (auto simp: np_sub_def)

text \<open>A non-zero constraint count can only come from a present \<open>A\<close> with its \<open>b\<close>.\<close>

lemma get_program_parameters_constrained:
  assumes "get_program_parameters Q c A b = Inr (nv, nc)" and "nc \<noteq> 0"
  shows "\<exists>Am bv. A = Some Am \<and> b = Some bv \<and> nc = length bv"
  using assms
  by (cases A; cases b; cases Q; cases c) (auto simp: get_program_parameters_def)

text \<open>What a normal return with a record says about the run that produced it.\<close>

lemma solve_miqp_Some:
  assumes "solve_miqp fp solver Q c A b eqs bins verbose gd = Inr (calls, Some out)"
      and "get_program_parameters Q c A b = Inr (nv, nc)"
  shows "\<exists>m r. miqp_model fp Q c A b (case eqs of None \<Rightarrow> [] | Some l \<Rightarrow> l)
                  (case bins of None \<Rightarrow> [] | Some l \<Rightarrow> l) verbose nv nc = Inr m
               \<and> solver m = Inr r
               \<and> (status r = OPTIMAL \<or> status r = SUBOPTIMAL)
               \<and> extract_solution fp r nc A b (case bins of None \<Rightarrow> [] | Some l \<Rightarrow> l) gd = Inr out"
  using assms
  by (auto simp: solve_miqp_def Let_def split: if_splits sum.splits)

lemma extract_solution_unconstrained:
  "extract_solution fp r 0 A b bins gd =
     Inr \<lparr>obj = ObjVal r, sol = X r, slack = None, active_set = None, dual = None\<rparr>"
  by (simp add: extract_solution_def)

lemma extract_solution_constrained:
  assumes "extract_solution fp r nc A b bins gd = Inr out" and "nc \<noteq> 0"
  shows "\<exists>Am bv Ax d. A = Some Am \<and> b = Some bv
     \<and> matvec fp Am (X r) = Inr Ax \<and> np_sub fp Ax bv = Inr d
     \<and> out = \<lparr>obj = ObjVal r, sol = X r, slack = Some (Slack r),
              active_set = Some (np_where (map (\<lambda>x. np_square fp x < ten_pow_m12 fp) d)),
              dual = (if gd \<and> bins = [] then Some (Pi r) else None)\<rparr>"
  using assms
  by (auto simp: extract_solution_def Let_def split: if_splits sum.splits option.splits)

text \<open>With shapes that fit, building the record raises nothing.\<close>

lemma extract_solution_total:
  assumes "nc \<noteq> 0 \<longrightarrow> (\<exists>Am bv. A = Some Am \<and> b = Some bv \<and> ncols Am = length (X r)
                                \<and> nrows Am = length bv)"
  shows "\<exists>out. extract_solution fp r nc A b bins gd = Inr out"
  using assms
  by (auto simp: extract_solution_def matvec_def np_sub_def Let_def)

text \<open>An absent \<open>bin_vars\<close> and an empty one are the same call.\<close>

lemma solve_miqp_bin_vars_default:
  "solve_miqp fp solver Q c A b eqs (Some []) verbose gd =
   solve_miqp fp solver Q c A b eqs None verbose gd"
  by (simp add: solve_miqp_def)

text \<open>Every normal return of \<^verbatim>\<open>solve_miqp\<close> has at least created a model.\<close>

lemma solve_miqp_log_nonempty:
  "solve_miqp fp solver Q c A b eqs bins verbose gd \<noteq> Inr ([], res)"
  by (auto simp: solve_miqp_def setup_calls_def Let_def split: sum.splits)

subsection \<open>The model handed to the solver\<close>

text \<open>
  Assignment through a list of indices that are all in \<open>0 \<le> i < n\<close> writes exactly the
  listed positions.
\<close>

lemma np_put_in_range:
  assumes "\<forall>i\<in>set idx. 0 \<le> i \<and> i < int (length xs)"
  shows "np_put xs idx v =
           Inr (map (\<lambda>k. if int k \<in> set idx then v else xs ! k) [0..<length xs])"
  using assms
proof (induction idx arbitrary: xs)
  case Nil
  then show ?case by (simp add: map_nth)
next
  case (Cons i idx)
  then have i: "0 \<le> i" "i < int (length xs)" by simp_all
  then have ix: "np_index (length xs) i = Inr (nat i)"
    by (simp add: np_index_def)
  from Cons.prems have "\<forall>j\<in>set idx. 0 \<le> j \<and> j < int (length (xs[nat i := v]))"
    by simp
  from Cons.IH [OF this] ix i show ?case
    by (auto simp: nth_list_update)
qed

text \<open>
  With equality indices in range, no entry of the sense array is left uninitialised:
  row \<open>k\<close> is \<open>EQUAL\<close> if \<open>k\<close> is listed and \<open>LESS_EQUAL\<close> otherwise. An index past the
  end raises instead.
\<close>

lemma constraint_sense_by_membership:
  assumes "\<forall>i\<in>set eqs. 0 \<le> i \<and> i < int n"
  shows "constraint_sense eqs n =
           Inr (map (\<lambda>k. Some (if int k \<in> set eqs then EQUAL else LESS_EQUAL)) [0..<n])"
proof -
  have 1: "np_put (replicate n None) eqs (Some EQUAL) =
             Inr (map (\<lambda>k. if int k \<in> set eqs then Some EQUAL else None) [0..<n])"
    using np_put_in_range [of eqs "replicate n None" "Some EQUAL"] assms
    by (simp cong: map_cong)
  let ?s = "map (\<lambda>k. if int k \<in> set eqs then Some EQUAL else None) [0..<n]"
  let ?ineq = "map int (filter (\<lambda>i. int i \<notin> set eqs) [0..<n])"
  have "\<forall>i\<in>set ?ineq. 0 \<le> i \<and> i < int (length ?s)"
    by auto
  from np_put_in_range [OF this, of "Some LESS_EQUAL"]
  have 2: "np_put ?s ?ineq (Some LESS_EQUAL) =
             Inr (map (\<lambda>k. Some (if int k \<in> set eqs then EQUAL else LESS_EQUAL)) [0..<n])"
    by (auto simp: image_iff)
  from 1 2 show ?thesis
    by (simp add: constraint_sense_def)
qed

lemma constraint_sense_examples:
  "constraint_sense [0, 2] 3 = Inr [Some EQUAL, Some LESS_EQUAL, Some EQUAL]
   \<and> constraint_sense [3] 3 = Inl IndexError"
  by (simp add: constraint_sense_def np_index_def upt_rec [of 0] numeral_3_eq_3)

text \<open>Variable \<open>i\<close> is binary exactly when \<open>i\<close> is listed in \<open>bin_vars\<close>.\<close>

lemma var_types_of_by_membership:
  "length (var_types_of bins nv) = nv
   \<and> (\<forall>i<nv. var_types_of bins nv ! i = (if int i \<in> set bins then BINARY else CONTINUOUS))"
  by (simp add: var_types_of_def)

text \<open>
  The exception of dimension inference on a present \<open>A\<close> with an absent \<open>b\<close> leaves
  \<^verbatim>\<open>solve_miqp\<close> and \<^verbatim>\<open>solve_qp\<close> as it is; \<^verbatim>\<open>solve_lp\<close> tests \<open>b\<close> first.
\<close>

lemma solve_miqp_b_absent_raises:
  "solve_miqp fp solver Q c (Some Am) None eqs bins verbose gd = Inl AttributeError
   \<and> solve_qp fp solver Q c (Some Am) None eqs verbose gd = Inl AttributeError
   \<and> solve_lp fp solver c (Some Am) None eqs verbose gd = Inr ([], None)"
  by (simp add: solve_qp_def solve_lp_def solve_miqp_def get_program_parameters_def)


subsection \<open>Dimension inference\<close>

text \<open>
  C2 (as amended). Whenever \<open>b\<close> is present if \<open>A\<close> is, dimension inference returns:
  as the variable count the length of \<open>c\<close> if \<open>c\<close> is present, else the column count of
  \<open>A\<close> if \<open>A\<close> is present, else the row count of \<open>Q\<close> if \<open>Q\<close> is present, else zero
  (the last present source in the order \<open>Q\<close>, \<open>A\<close>, \<open>c\<close> wins); as the constraint count
  the length of \<open>b\<close> when \<open>A\<close> is present and zero when \<open>A\<close> is absent. In particular
  both counts are zero when none of \<open>Q\<close>, \<open>A\<close>, \<open>c\<close> is present.
\<close>

theorem get_program_parameters_precedence:
  assumes "A \<noteq> None \<longrightarrow> b \<noteq> None"
  shows "get_program_parameters Q c A b =
     Inr (case c of
            Some cv \<Rightarrow> length cv
          | None \<Rightarrow> (case A of
                       Some Am \<Rightarrow> ncols Am
                     | None \<Rightarrow> (case Q of Some Qm \<Rightarrow> nrows Qm | None \<Rightarrow> 0)),
          case A of None \<Rightarrow> 0 | Some Am \<Rightarrow> length (the b))"
  using assms
  by (cases Q; cases c; cases A; cases b) (simp_all add: get_program_parameters_def)

theorem get_program_parameters_precedence_witness:
  "get_program_parameters (Some (matrix_of_rows 2 [[1, 0], [0, 1]])) (Some [1, 1, 1])
     (Some (matrix_of_rows 4 [[1, 2, 3, 4]])) (Some [5]) = Inr (3, 1)
   \<and> get_program_parameters (Some (matrix_of_rows 2 [[1, 0], [0, 1]])) None
     (Some (matrix_of_rows 4 [[1, 2, 3, 4]])) (Some [5]) = Inr (4, 1)
   \<and> get_program_parameters (Some (matrix_of_rows 2 [[1, 0], [0, 1]])) None None (Some [5])
     = Inr (2, 0)
   \<and> get_program_parameters None None None None = Inr (0, 0)"
  using
    get_program_parameters_precedence
      [of "Some (matrix_of_rows 4 [[1, 2, 3, 4]])" "Some [5]"
          "Some (matrix_of_rows 2 [[1, 0], [0, 1]])" "Some [1, 1, 1]"]
    get_program_parameters_precedence
      [of "Some (matrix_of_rows 4 [[1, 2, 3, 4]])" "Some [5]"
          "Some (matrix_of_rows 2 [[1, 0], [0, 1]])" None]
    get_program_parameters_precedence
      [of None "Some [5]" "Some (matrix_of_rows 2 [[1, 0], [0, 1]])" None]
    get_program_parameters_precedence [of None None None None]
  by (simp add: matrix_of_rows_def)

text \<open>
  With \<open>A\<close> present and \<open>b\<close> absent the function does not return a pair at all: the read
  of \<^verbatim>\<open>b.shape\<close> raises.
\<close>

theorem get_program_parameters_b_absent_raises:
  "get_program_parameters None None (Some (matrix_of_rows 1 [[1]])) None = Inl AttributeError"
  by (simp add: get_program_parameters_def)

subsection \<open>The ill-posed problem\<close>

text \<open>
  C3. When \<open>Q\<close> and \<open>A\<close> are both absent, \<^verbatim>\<open>solve_miqp\<close> returns \<open>None\<close>, whatever the
  solver and the other arguments are, and the solver has not been run: the only calls
  made before the return create the model and set its parameters; no variable,
  constraint or objective is declared and \<^verbatim>\<open>optimize\<close> is not called.
\<close>

theorem solve_miqp_ill_posed:
  "solve_miqp fp solver None c None b eqs bins verbose gd =
     Inr (setup_calls fp verbose (case bins of None \<Rightarrow> [] | Some l \<Rightarrow> l), None)
   \<and> Call_optimize \<notin> set (setup_calls fp verbose (case bins of None \<Rightarrow> [] | Some l \<Rightarrow> l))
   \<and> list_all (\<lambda>call. call = Call_Model \<or> (\<exists>k v. call = Call_setParam k v))
        (setup_calls fp verbose (case bins of None \<Rightarrow> [] | Some l \<Rightarrow> l))"
  by (auto simp: solve_miqp_def get_program_parameters_def setup_calls_def list_all_iff)

subsection \<open>The solver's status\<close>

text \<open>
  C7. Take a call of \<^verbatim>\<open>solve_miqp\<close> that reaches the solver: \<open>Q\<close> and \<open>A\<close> are not both
  absent, the dimensions are inferred, the model \<open>m\<close> is built, and the solver answers
  \<open>r\<close> to it. Then the call returns \<open>None\<close> exactly when the status of \<open>r\<close> is neither
  \<open>OPTIMAL\<close> nor \<open>SUBOPTIMAL\<close>; every such status gives the same return; and for
  \<open>OPTIMAL\<close> or \<open>SUBOPTIMAL\<close> the call returns what the extraction of the record gives,
  which is a record whenever \<open>A\<close>, if present, has one row per constraint and one
  column per entry of the solver's primal vector.
\<close>

theorem solve_miqp_status:
  assumes posed: "\<not> (A = None \<and> Q = None)"
      and dims: "get_program_parameters Q c A b = Inr (nv, nc)"
      and model: "miqp_model fp Q c A b (case eqs of None \<Rightarrow> [] | Some l \<Rightarrow> l)
                    (case bins of None \<Rightarrow> [] | Some l \<Rightarrow> l) verbose nv nc = Inr m"
      and answer: "solver m = Inr r"
  shows "((\<exists>calls. solve_miqp fp solver Q c A b eqs bins verbose gd = Inr (calls, None))
            \<longleftrightarrow> status r \<noteq> OPTIMAL \<and> status r \<noteq> SUBOPTIMAL)
       \<and> (status r \<noteq> OPTIMAL \<and> status r \<noteq> SUBOPTIMAL \<longrightarrow>
            solve_miqp fp solver Q c A b eqs bins verbose gd =
              Inr (setup_calls fp verbose (case bins of None \<Rightarrow> [] | Some l \<Rightarrow> l) @ build_calls nc,
                   None))
       \<and> (status r = OPTIMAL \<or> status r = SUBOPTIMAL \<longrightarrow>
            (case extract_solution fp r nc A b (case bins of None \<Rightarrow> [] | Some l \<Rightarrow> l) gd of
               Inl e \<Rightarrow> solve_miqp fp solver Q c A b eqs bins verbose gd = Inl e
             | Inr out \<Rightarrow>
                 (\<exists>calls. solve_miqp fp solver Q c A b eqs bins verbose gd = Inr (calls, Some out))))
       \<and> ((status r = OPTIMAL \<or> status r = SUBOPTIMAL)
            \<and> (\<forall>Am. A = Some Am \<longrightarrow> nrows Am = nc \<and> ncols Am = length (X r)) \<longrightarrow>
            (\<exists>calls out. solve_miqp fp solver Q c A b eqs bins verbose gd = Inr (calls, Some out)))"
proof -
  let ?bins = "case bins of None \<Rightarrow> [] | Some l \<Rightarrow> l"
  let ?run = "solve_miqp fp solver Q c A b eqs bins verbose gd"
  have fail: "?run = Inr (setup_calls fp verbose ?bins @ build_calls nc, None)"
    if "status r \<noteq> OPTIMAL \<and> status r \<noteq> SUBOPTIMAL"
    using that posed dims model answer by (auto simp: solve_miqp_def)
  have ok: "?run = (case extract_solution fp r nc A b ?bins gd of
                      Inl e \<Rightarrow> Inl e
                    | Inr out \<Rightarrow>
                        Inr (setup_calls fp verbose ?bins @ build_calls nc
                               @ extract_calls nc ?bins gd, Some out))"
    if "status r = OPTIMAL \<or> status r = SUBOPTIMAL"
    using that posed dims model answer
    by (auto simp: solve_miqp_def Let_def split: sum.splits)
  have shaped: "\<exists>out. extract_solution fp r nc A b ?bins gd = Inr out"
    if "\<forall>Am. A = Some Am \<longrightarrow> nrows Am = nc \<and> ncols Am = length (X r)"
  proof (rule extract_solution_total, rule impI)
    assume "nc \<noteq> 0"
    with dims obtain Am bv where "A = Some Am" "b = Some bv" "nc = length bv"
      using get_program_parameters_constrained by blast
    with that show "\<exists>Am bv. A = Some Am \<and> b = Some bv \<and> ncols Am = length (X r)
                      \<and> nrows Am = length bv"
      by simp
  qed
  have c1: "(\<exists>calls. ?run = Inr (calls, None)) \<longleftrightarrow> status r \<noteq> OPTIMAL \<and> status r \<noteq> SUBOPTIMAL"
    using fail ok by (auto split: sum.splits)
  have c3: "status r = OPTIMAL \<or> status r = SUBOPTIMAL \<longrightarrow>
            (case extract_solution fp r nc A b ?bins gd of
               Inl e \<Rightarrow> ?run = Inl e
             | Inr out \<Rightarrow> (\<exists>calls. ?run = Inr (calls, Some out)))"
    using ok by (auto split: sum.splits)
  have c4: "(status r = OPTIMAL \<or> status r = SUBOPTIMAL)
            \<and> (\<forall>Am. A = Some Am \<longrightarrow> nrows Am = nc \<and> ncols Am = length (X r)) \<longrightarrow>
            (\<exists>calls out. ?run = Inr (calls, Some out))"
    using ok shaped by (auto split: sum.splits)
  from c1 fail c3 c4 show ?thesis
    by blast
qed

theorem solve_miqp_status_witness:
  "solve_miqp binary64_ops (const_solver infeasible_answer) None (Some [1, 1]) (Some lp_A) (Some [0, 0])
      None None False True
    = Inr (setup_calls binary64_ops False [] @ build_calls 2, None)
   \<and> (\<exists>calls out. solve_miqp binary64_ops (const_solver lp_answer) None (Some [1, 1]) (Some lp_A)
         (Some [0, 0]) None None False True = Inr (calls, Some out))"
proof -
  have posed: "\<not> (Some lp_A = None \<and> (None :: matrix option) = None)"
    by simp
  have dims: "get_program_parameters None (Some [1, 1]) (Some lp_A) (Some [0, 0]) = Inr (2, 2)"
    by (simp add: get_program_parameters_def)
  obtain m where model: "miqp_model binary64_ops None (Some [1, 1]) (Some lp_A) (Some [0, 0])
      (case None of None \<Rightarrow> [] | Some l \<Rightarrow> l) (case None of None \<Rightarrow> [] | Some l \<Rightarrow> l)
      False 2 2 = Inr m"
    by (simp add: miqp_model_def constraint_sense_def np_index_def upt_rec [of 0] numeral_2_eq_2)
  have a1: "const_solver infeasible_answer m = Inr infeasible_answer"
    and a2: "const_solver lp_answer m = Inr lp_answer"
    by (simp_all add: const_solver_def)
  from solve_miqp_status
         [where solver = "const_solver infeasible_answer" and gd = True,
          OF posed dims model a1]
       solve_miqp_status
         [where solver = "const_solver lp_answer" and gd = True,
          OF posed dims model a2]
  show ?thesis
    by (simp add: infeasible_answer_def lp_answer_def lp_A_def matrix_of_rows_def)
qed

subsection \<open>The solution record\<close>

text \<open>
  C6. When the inferred constraint count is zero, a record returned by
  \<^verbatim>\<open>solve_miqp\<close> has \<open>slack\<close>, \<open>active_set\<close> and \<open>dual\<close> absent, and its \<open>obj\<close> and
  \<open>sol\<close> are the objective value and the primal vector that the solver reported for
  the model built from the arguments.
\<close>

theorem solve_miqp_unconstrained:
  assumes ret: "solve_miqp fp solver Q c A b eqs bins verbose gd = Inr (calls, Some out)"
      and dims: "get_program_parameters Q c A b = Inr (nv, 0)"
  shows "slack out = None \<and> active_set out = None \<and> dual out = None
       \<and> (\<exists>m r. miqp_model fp Q c A b (case eqs of None \<Rightarrow> [] | Some l \<Rightarrow> l)
                   (case bins of None \<Rightarrow> [] | Some l \<Rightarrow> l) verbose nv 0 = Inr m
                 \<and> solver m = Inr r \<and> obj out = ObjVal r \<and> sol out = X r)"
proof -
  from solve_miqp_Some [OF ret dims] obtain m r where
    m: "miqp_model fp Q c A b (case eqs of None \<Rightarrow> [] | Some l \<Rightarrow> l)
          (case bins of None \<Rightarrow> [] | Some l \<Rightarrow> l) verbose nv 0 = Inr m"
    and r: "solver m = Inr r"
    and ex: "extract_solution fp r 0 A b (case bins of None \<Rightarrow> [] | Some l \<Rightarrow> l) gd = Inr out"
    by blast
  from ex have
    "out = \<lparr>obj = ObjVal r, sol = X r, slack = None, active_set = None, dual = None\<rparr>"
    by (simp add: extract_solution_unconstrained)
  with m r show ?thesis
    by auto
qed

theorem solve_miqp_unconstrained_witness:
  "solve_miqp binary64_ops (const_solver qp_answer) (Some qp_Q) None None None None None False True
     = Inr (setup_calls binary64_ops False [] @ build_calls 0 @ extract_calls 0 [] True,
            Some \<lparr>obj = 0, sol = [0], slack = None, active_set = None, dual = None\<rparr>)
   \<and> get_program_parameters (Some qp_Q) None None None = Inr (1, 0)"
proof -
  have run: "solve_miqp binary64_ops (const_solver qp_answer) (Some qp_Q) None None None None None False True
     = Inr (setup_calls binary64_ops False [] @ build_calls 0 @ extract_calls 0 [] True,
            Some \<lparr>obj = 0, sol = [0], slack = None, active_set = None, dual = None\<rparr>)"
    by (simp add: run_defs qp_answer_def qp_Q_def)
  have dims: "get_program_parameters (Some qp_Q) None None None = Inr (1, 0)"
    by (simp add: get_program_parameters_def qp_Q_def matrix_of_rows_def)
  from solve_miqp_unconstrained [OF run dims] run dims show ?thesis
    by simp
qed

text \<open>
  C1 (as amended). For a call of \<^verbatim>\<open>solve_miqp\<close> that returns a record with a
  non-zero inferred constraint count: \<open>A\<close> and \<open>b\<close> are present, the residual array
  \<^verbatim>\<open>A @ sol - b\<close> was computed from the primal vector \<open>sol\<close> of the record, and
  \<open>active_set\<close> is present and lists, in ascending order and without repetition,
  exactly the indices \<open>i\<close> of that array at which the square of the residual, as the
  platform computes it, is strictly below the double \<^verbatim>\<open>10 ** -12\<close>; an index whose
  computed square is that double or more is not in it. When \<open>A\<close> has one row per
  constraint these indices are the constraint indices, and the residual at \<open>i\<close> is the
  computed difference of row \<open>i\<close> of \<^verbatim>\<open>A @ sol\<close> and \<open>b\<^sub>i\<close>.
\<close>

theorem solve_miqp_active_set:
  assumes ret: "solve_miqp fp solver Q c A b eqs bins verbose gd = Inr (calls, Some out)"
      and dims: "get_program_parameters Q c A b = Inr (nv, nc)"
      and pos: "0 < nc"
  shows "\<exists>Am bv Ax d idx.
           A = Some Am \<and> b = Some bv \<and> nc = length bv
         \<and> matvec fp Am (sol out) = Inr Ax \<and> np_sub fp Ax bv = Inr d
         \<and> active_set out = Some idx \<and> sorted idx \<and> distinct idx
         \<and> set idx = {i. i < length d \<and> np_square fp (d ! i) < ten_pow_m12 fp}
         \<and> (nrows Am = nc \<longrightarrow>
              set idx = {i. i < nc \<and>
                np_square fp (fl_sub fp (fl_matmul fp Am (sol out) i) (bv ! i))
                  < ten_pow_m12 fp})"
proof -
  from pos have nz: "nc \<noteq> 0"
    by simp
  from get_program_parameters_constrained [OF dims nz] obtain Am bv where
    A: "A = Some Am" and b: "b = Some bv" and nc: "nc = length bv"
    by blast
  from solve_miqp_Some [OF ret dims] obtain r where
    ex: "extract_solution fp r nc A b (case bins of None \<Rightarrow> [] | Some l \<Rightarrow> l) gd = Inr out"
    by blast
  from extract_solution_constrained [OF ex nz] A b obtain Ax d where
    mv: "matvec fp Am (X r) = Inr Ax" and sub: "np_sub fp Ax bv = Inr d"
    and sol: "sol out = X r"
    and act: "active_set out =
                Some (np_where (map (\<lambda>x. np_square fp x < ten_pow_m12 fp) d))"
    by auto
  let ?idx = "np_where (map (\<lambda>x. np_square fp x < ten_pow_m12 fp) d)"
  have general: "set ?idx = {i. i < length d \<and> np_square fp (d ! i) < ten_pow_m12 fp}"
    by (auto simp: set_np_where)
  have shaped: "set ?idx = {i. i < nc \<and>
                  np_square fp (fl_sub fp (fl_matmul fp Am (sol out) i) (bv ! i))
                    < ten_pow_m12 fp}"
    if rows: "nrows Am = nc"
  proof -
    from matvec_Inr [OF mv] rows nc have
      len: "length Ax = length bv"
      and Ax: "\<And>i. i < length bv \<Longrightarrow> Ax ! i = fl_matmul fp Am (X r) i"
      by simp_all
    from np_sub_same_length [OF sub len] have
      dlen: "length d = length bv"
      and d: "\<And>i. i < length bv \<Longrightarrow> d ! i = fl_sub fp (Ax ! i) (bv ! i)"
      by simp_all
    show ?thesis
      by (auto simp: set_np_where dlen nc d Ax sol)
  qed
  from A b nc mv sub sol act general shaped
    sorted_np_where [of "map (\<lambda>x. np_square fp x < ten_pow_m12 fp) d"]
  show ?thesis
    by auto
qed

text \<open>
  On the band example, run in binary64 arithmetic, the first residual squares to just
  below the threshold and the second to just above it: only index \<open>0\<close> is active.
\<close>

theorem solve_miqp_active_set_witness:
  "solve_miqp binary64_ops (const_solver band_answer) (Some band_Q) (Some [- 1 / 2, - 1 / 4])
      (Some band_A) (Some band_b) None None False True
    = Inr (setup_calls binary64_ops False [] @ build_calls 2 @ extract_calls 2 [] True,
           Some \<lparr>obj = - 5 / 32, sol = [1 / 2, 1 / 4], slack = Some [near_lo, near_hi],
                  active_set = Some [0], dual = Some [0, 0]\<rparr>)
   \<and> {i. i < (2::nat) \<and>
          np_square binary64_ops
            (fl_sub binary64_ops (fl_matmul binary64_ops band_A [1 / 2, 1 / 4] i) (band_b ! i))
          < ten_pow_m12 binary64_ops} = {0}"
proof -
  have run: "solve_miqp binary64_ops (const_solver band_answer) (Some band_Q)
      (Some [- 1 / 2, - 1 / 4]) (Some band_A) (Some band_b) None None False True
    = Inr (setup_calls binary64_ops False [] @ build_calls 2 @ extract_calls 2 [] True,
           Some \<lparr>obj = - 5 / 32, sol = [1 / 2, 1 / 4], slack = Some [near_lo, near_hi],
                  active_set = Some [0], dual = Some [0, 0]\<rparr>)"
    apply (simp add: solve_miqp_def get_program_parameters_def miqp_model_def
        constraint_sense_def np_index_def extract_solution_def matvec_def np_sub_def
        np_where_def Let_def const_solver_def matrix_of_rows_def upt_rec [of 0]
        numeral_2_eq_2 binary64_ops_def band_answer_def band_Q_def band_A_def band_b_def
        round64_zero round64_half round64_minus_half round64_near_lo round64_near_hi
        round64_near_lo_square round64_near_hi_square)
    apply (simp add: near_lo_def near_hi_def)
    done
  have dims: "get_program_parameters (Some band_Q) (Some [- 1 / 2, - 1 / 4]) (Some band_A)
                (Some band_b) = Inr (2, 2)"
    by (simp add: get_program_parameters_def band_b_def)
  have rows: "nrows band_A = 2"
    by (simp add: band_A_def matrix_of_rows_def)
  from solve_miqp_active_set [OF run dims] rows show ?thesis
    using run by auto
qed

text \<open>
  Read in exact arithmetic, with the threshold \<open>10\<^sup>-\<^sup>1\<^sup>2\<close> itself, the membership test
  is not what the code computes. On the program \<open>edge_A\<close>, \<open>edge_b\<close> the code, run in
  binary64 arithmetic, leaves constraint \<open>1\<close> out of the active set, although the exact
  square of its residual \<open>(A \<cdot> sol - b)\<^sub>1\<close> is below \<open>10\<^sup>-\<^sup>1\<^sup>2\<close>.
\<close>

theorem solve_miqp_active_set_rounding:
  "solve_miqp binary64_ops (const_solver edge_answer) None (Some [1]) (Some edge_A)
      (Some edge_b) None None False True
    = Inr (setup_calls binary64_ops False [] @ build_calls 2 @ extract_calls 2 [] True,
           Some \<lparr>obj = 0, sol = [0], slack = Some [0, double_1e_minus6],
                  active_set = Some [0], dual = Some [-1, 0]\<rparr>)
   \<and> (entry edge_A 1 0 * [0] ! 0 - edge_b ! 1) ^ 2 < 1 / 10 ^ 12"
proof -
  have run: "solve_miqp binary64_ops (const_solver edge_answer) None (Some [1]) (Some edge_A)
      (Some edge_b) None None False True
    = Inr (setup_calls binary64_ops False [] @ build_calls 2 @ extract_calls 2 [] True,
           Some \<lparr>obj = 0, sol = [0], slack = Some [0, double_1e_minus6],
                  active_set = Some [0], dual = Some [-1, 0]\<rparr>)"
    by (simp add: solve_miqp_def get_program_parameters_def miqp_model_def
        constraint_sense_def np_index_def extract_solution_def matvec_def np_sub_def
        np_where_def Let_def const_solver_def matrix_of_rows_def upt_rec [of 0]
        numeral_2_eq_2 binary64_ops_def edge_answer_def edge_A_def edge_b_def
        round64_zero round64_1e_minus6 round64_1e_minus6_square)
  have exact: "(entry edge_A 1 0 * [0] ! 0 - edge_b ! 1) ^ 2 < 1 / 10 ^ 12"
    by (simp add: edge_A_def edge_b_def matrix_of_rows_def double_1e_minus6_def
        power2_eq_square)
  from run exact show ?thesis
    by simp
qed

text \<open>
  C4. For a call of \<^verbatim>\<open>solve_miqp\<close> that returns a record with a non-zero inferred
  constraint count: \<open>dual\<close> is present in the record if and only if \<open>get_duals\<close> is true
  and the list of binary indices (empty when the argument is absent) is empty. So
  \<open>dual\<close> is absent whenever \<open>get_duals\<close> is false, and absent whenever some variable has
  been declared binary, whatever \<open>get_duals\<close> is.
\<close>

theorem solve_miqp_dual_iff:
  assumes ret: "solve_miqp fp solver Q c A b eqs bins verbose gd = Inr (calls, Some out)"
      and dims: "get_program_parameters Q c A b = Inr (nv, nc)"
      and pos: "nc \<noteq> 0"
  shows "(dual out \<noteq> None \<longleftrightarrow> gd \<and> (case bins of None \<Rightarrow> [] | Some l \<Rightarrow> l) = [])
       \<and> (\<not> gd \<longrightarrow> dual out = None)
       \<and> (BINARY \<in> set (var_types_of (case bins of None \<Rightarrow> [] | Some l \<Rightarrow> l) nv)
            \<longrightarrow> dual out = None)"
proof -
  let ?bins = "case bins of None \<Rightarrow> [] | Some l \<Rightarrow> l"
  from solve_miqp_Some [OF ret dims] obtain r where
    ex: "extract_solution fp r nc A b ?bins gd = Inr out"
    by blast
  from extract_solution_constrained [OF ex pos] have
    dual: "dual out = (if gd \<and> ?bins = [] then Some (Pi r) else None)"
    by auto
  have "BINARY \<in> set (var_types_of ?bins nv) \<Longrightarrow> ?bins \<noteq> []"
    by (auto simp: var_types_of_def)
  with dual show ?thesis
    by auto
qed

text \<open>
  The example program with duals requested: continuous, the record carries the duals;
  with the second variable binary, it does not.
\<close>

theorem solve_miqp_dual_iff_witness:
  "dual \<lparr>obj = 0, sol = [0, 0], slack = Some [0, 0], active_set = Some [0, 1],
          dual = Some [-1, -1]\<rparr> \<noteq> None
   \<and> solve_miqp binary64_ops (const_solver lp_answer) None (Some [1, 1]) (Some lp_A) (Some [0, 0])
        None (Some [1]) False True
      = Inr (setup_calls binary64_ops False [1] @ build_calls 2 @ extract_calls 2 [1] True,
             Some \<lparr>obj = 0, sol = [0, 0], slack = Some [0, 0], active_set = Some [0, 1],
                    dual = None\<rparr>)
   \<and> var_types_of [1] 2 = [CONTINUOUS, BINARY]"
proof -
  have run1: "solve_miqp binary64_ops (const_solver lp_answer) None (Some [1, 1]) (Some lp_A) (Some [0, 0])
      None None False True
    = Inr (setup_calls binary64_ops False [] @ build_calls 2 @ extract_calls 2 [] True,
           Some \<lparr>obj = 0, sol = [0, 0], slack = Some [0, 0], active_set = Some [0, 1],
                  dual = Some [-1, -1]\<rparr>)"
    by (simp add: run_defs)
  have run2: "solve_miqp binary64_ops (const_solver lp_answer) None (Some [1, 1]) (Some lp_A) (Some [0, 0])
      None (Some [1]) False True
    = Inr (setup_calls binary64_ops False [1] @ build_calls 2 @ extract_calls 2 [1] True,
           Some \<lparr>obj = 0, sol = [0, 0], slack = Some [0, 0], active_set = Some [0, 1],
                  dual = None\<rparr>)"
    by (simp add: run_defs)
  have dims: "get_program_parameters None (Some [1, 1]) (Some lp_A) (Some [0, 0]) = Inr (2, 2)"
    by (simp add: get_program_parameters_def)
  have vt: "var_types_of [1] 2 = [CONTINUOUS, BINARY]"
    by (simp add: var_types_of_def upt_rec [of 0] numeral_2_eq_2)
  from solve_miqp_dual_iff [OF run1 dims] solve_miqp_dual_iff [OF run2 dims] run2 vt
  show ?thesis
    by simp
qed

subsection \<open>The specialised entry points\<close>

text \<open>
  C5. The LP and the MILP entry point return \<open>None\<close> with no call made on any model
  when \<open>A\<close> or \<open>b\<close> is absent or has size zero, that is when \<open>lp_precondition\<close> fails;
  no return of \<^verbatim>\<open>solve_miqp\<close> has an empty log, so the formulator was not entered.
  When the precondition holds, the LP entry point is \<^verbatim>\<open>solve_miqp\<close> with \<open>Q\<close> absent
  and no binary indices, and the MILP entry point is \<^verbatim>\<open>solve_miqp\<close> with \<open>Q\<close> absent
  and its own \<open>bin_vars\<close>.
\<close>

theorem solve_lp_milp_precondition:
  "solve_lp fp solver c A b eqs verbose gd =
     (if lp_precondition A b
      then solve_miqp fp solver None c A b eqs None verbose gd
      else Inr ([], None))
   \<and> solve_milp fp solver c A b eqs bins verbose gd =
     (if lp_precondition A b
      then solve_miqp fp solver None c A b eqs bins verbose gd
      else Inr ([], None))
   \<and> solve_miqp fp' solver' Q' c' A' b' eqs' bins' verbose' gd' \<noteq> Inr ([], res)"
  by (simp add: solve_lp_def solve_milp_def lp_precondition_def solve_miqp_log_nonempty
      split: option.splits)

text \<open>
  An \<open>A\<close> with no rows and an empty \<open>b\<close>, and an absent \<open>A\<close>, are turned away; the
  example program is passed on.
\<close>

theorem solve_lp_milp_precondition_witness:
  "solve_lp binary64_ops (const_solver lp_answer) (Some [1, 1]) (Some (matrix_of_rows 2 [])) (Some [])
      None False True = Inr ([], None)
   \<and> solve_milp binary64_ops (const_solver lp_answer) (Some [1, 1]) None (Some [0, 0]) None (Some [0])
      False True = Inr ([], None)
   \<and> solve_lp binary64_ops (const_solver lp_answer) (Some [1, 1]) (Some lp_A) (Some [0, 0]) None False True
      = solve_miqp binary64_ops (const_solver lp_answer) None (Some [1, 1]) (Some lp_A) (Some [0, 0])
          None None False True"
  using
    solve_lp_milp_precondition
      [of binary64_ops "const_solver lp_answer" "Some [1, 1]" "Some (matrix_of_rows 2 [])"
          "Some []" None False True]
    solve_lp_milp_precondition
      [of binary64_ops "const_solver lp_answer" "Some [1, 1]" None "Some [0, 0]" None False True
          "Some [0]"]
    solve_lp_milp_precondition
      [of binary64_ops "const_solver lp_answer" "Some [1, 1]" "Some lp_A" "Some [0, 0]" None
          False True]
  by (simp add: lp_precondition_def matrix_size_def matrix_of_rows_def lp_A_def)

text \<open>
  C9. The QP entry point returns what \<^verbatim>\<open>solve_miqp\<close> returns on the same arguments
  with an empty list of binary indices, and with that list absent: the same record or
  \<open>None\<close>, the same exception, the same calls on the solver.
\<close>

theorem solve_qp_is_solve_miqp:
  "solve_qp fp solver Q c A b eqs verbose gd = solve_miqp fp solver Q c A b eqs (Some []) verbose gd
   \<and> solve_qp fp solver Q c A b eqs verbose gd = solve_miqp fp solver Q c A b eqs None verbose gd"
  by (simp add: solve_qp_def solve_miqp_bin_vars_default)

text \<open>
  C10. The MILP entry point called with \<open>bin_vars\<close> absent, or with an empty list,
  returns what the LP entry point returns on the same arguments.
\<close>

theorem solve_milp_no_binaries_is_solve_lp:
  "solve_milp fp solver c A b eqs None verbose gd = solve_lp fp solver c A b eqs verbose gd
   \<and> solve_milp fp solver c A b eqs (Some []) verbose gd = solve_lp fp solver c A b eqs verbose gd"
  by (simp add: solve_milp_def solve_lp_def solve_miqp_bin_vars_default split: option.splits)

subsection \<open>Equality of solution records\<close>

text \<open>
  When the three optional fields are present in both records and all four arrays have
  matching lengths, \<^verbatim>\<open>__eq__\<close> is the conjunction of the four closeness tests and
  the test on \<open>obj\<close>.
\<close>

lemma SolverOutput_eq_present:
  assumes "slack s = Some ss" and "slack t = Some st" and "length ss = length st"
      and "active_set s = Some js" and "active_set t = Some ks" and "length js = length ks"
      and "dual s = Some ds" and "dual t = Some dt" and "length ds = length dt"
      and "length (sol s) = length (sol t)"
  shows "SolverOutput_eq fp s t =
           Inr (list_all2 (fl_isclose fp) ss st
              \<and> list_all2 (fl_isclose fp) (map real js) (map real ks)
              \<and> list_all2 (fl_isclose fp) ds dt
              \<and> list_all2 (fl_isclose fp) (sol s) (sol t)
              \<and> py_square fp (fl_sub fp (obj s) (obj t)) < ten_pow_m10 fp)"
  using assms
  by (simp add: SolverOutput_eq_def np_allclose_def py_and_def split: bool.splits)

text \<open>
  C8 (where the code departs from it). The comparison is not defined for records with
  an absent optional field: comparing the record of an unconstrained problem with
  itself, or the record of a constrained problem solved without duals with itself,
  raises \<^verbatim>\<open>TypeError\<close> in \<^verbatim>\<open>numpy.allclose\<close> instead of answering true.
\<close>

theorem SolverOutput_eq_absent_fields_raise:
  "SolverOutput_eq fp
     \<lparr>obj = 0, sol = [0], slack = None, active_set = None, dual = None\<rparr>
     \<lparr>obj = 0, sol = [0], slack = None, active_set = None, dual = None\<rparr> = Inl TypeError
   \<and> SolverOutput_eq binary64_ops
     \<lparr>obj = 0, sol = [0, 0], slack = Some [0, 0], active_set = Some [0, 1], dual = None\<rparr>
     \<lparr>obj = 0, sol = [0, 0], slack = Some [0, 0], active_set = Some [0, 1], dual = None\<rparr>
       = Inl TypeError"
proof -
  have close0: "fl_isclose binary64_ops 0 0"
    by (simp add: binary64_ops_def round64_zero round64_1e_minus8)
      (simp add: double_1e_minus8_def)
  have close1: "fl_isclose binary64_ops 1 1"
    by (simp add: binary64_ops_def round64_zero round64_1e_minus5 round64_atol_plus_rtol)
  from close0 close1 show ?thesis
    by (simp add: SolverOutput_eq_def np_allclose_def py_and_def)
qed

end
